theory Spec2Isabelle
  imports Complex_Main
begin

section \<open>Values\<close>

text \<open>
  The payroll engine of Nomina BJ Pro 4.0 (server/services/calculoNomina.js) and the batch
  routes (server/routes/nominas.js), embedded as HOL functions.

  Conventions of the embedding:
  \<^item> a JavaScript number is a real number: the arithmetic of the engine is idealised, so
    the binary rounding of IEEE doubles, NaN and the infinities are outside the model;
  \<^item> a property that may be absent from an object (\<open>undefined\<close>) is an \<open>option\<close>,
    \<open>None\<close> standing for \<open>undefined\<close>;
  \<^item> an exception is the left summand of a sum type (\<open>Inl\<close>);
  \<^item> \<open>new Date().toISOString()\<close> is a parameter \<open>ahora\<close> of each route, read once
    per request;
  \<^item> the JSON files under server/data are the fields of a record \<open>almacen\<close>, and reading
    or writing them does not fail;
  \<^item> the accented letters of the messages are written without the accent.
\<close>

type_synonym violacion = "string \<times> string"

datatype error =
    AppError (err_message: string) (err_statusCode: nat) (err_code: string)
      (err_details: "violacion list")
  | ReferenceError string
  | TypeError string


text \<open>errorHandler.js: the table \<open>ErrorCodes\<close> as (code, status, message).\<close>

definition ErrorCodes :: "(string \<times> (string \<times> nat \<times> string)) list" where
  "ErrorCodes =
    [(''EMP_NOT_FOUND'', (''EMP_NOT_FOUND'', 404, ''Empleado no encontrado'')),
     (''EMP_DUPLICATE'', (''EMP_DUPLICATE'', 409, ''La cedula ya esta registrada'')),
     (''EMP_INVALID_DATA'', (''EMP_INVALID_DATA'', 400, ''Datos del empleado invalidos'')),
     (''CALC_INVALID_DAYS'',
        (''CALC_INVALID_DAYS'', 400, ''Dias laborados debe estar entre 0 y 30'')),
     (''CALC_NEGATIVE_RESULT'',
        (''CALC_NEGATIVE_RESULT'', 400, ''El resultado del calculo es negativo'')),
     (''CALC_MISSING_CONFIG'',
        (''CALC_MISSING_CONFIG'', 500, ''Configuracion del sistema no disponible'')),
     (''FILE_READ_ERROR'', (''FILE_READ_ERROR'', 500, ''Error leyendo archivo de datos'')),
     (''FILE_WRITE_ERROR'', (''FILE_WRITE_ERROR'', 500, ''Error guardando archivo de datos'')),
     (''NOMINA_NOT_FOUND'', (''NOMINA_NOT_FOUND'', 404, ''Periodo de nomina no encontrado'')),
     (''NOMINA_ALREADY_CLOSED'',
        (''NOMINA_ALREADY_CLOSED'', 400, ''El periodo de nomina ya esta cerrado'')),
     (''VALIDATION_ERROR'', (''VALIDATION_ERROR'', 400, ''Error de validacion'')),
     (''INTERNAL_ERROR'', (''INTERNAL_ERROR'', 500, ''Error interno del servidor''))]"

text \<open>
  \<open>createError(errorKey, customMessage)\<close>: an unknown key falls back to INTERNAL_ERROR, a
  missing or empty custom message to the message of the table. A fresh error carries no
  details (the empty list).
\<close>

definition createError :: "string \<Rightarrow> string option \<Rightarrow> error" where
  "createError errorKey customMessage =
    (let errorDef = (case map_of ErrorCodes errorKey of
                       None \<Rightarrow> (''INTERNAL_ERROR'', 500, ''Error interno del servidor'')
                     | Some d \<Rightarrow> d)
     in case errorDef of (c, status, m) \<Rightarrow>
          AppError (case customMessage of
                      None \<Rightarrow> m
                    | Some cm \<Rightarrow> if cm = [] then m else cm) status c [])"

text \<open>\<open>error.details = errores\<close> on an error object.\<close>

fun con_detalles :: "violacion list \<Rightarrow> error \<Rightarrow> error" where
  "con_detalles ds (AppError m s c _) = AppError m s c ds"
| "con_detalles ds e = e"

text \<open>Truthiness of a number that may be absent: \<open>undefined\<close> and \<open>0\<close> are falsy.\<close>

definition falsy :: "real option \<Rightarrow> bool" where
  "falsy v = (case v of None \<Rightarrow> True | Some x \<Rightarrow> x = 0)"

text \<open>\<open>v || d\<close> on numbers.\<close>

definition o_bien :: "real option \<Rightarrow> real \<Rightarrow> real" where
  "o_bien v d = (case v of None \<Rightarrow> d | Some x \<Rightarrow> if x = 0 then d else x)"

text \<open>A destructuring default \<open>{ v = d }\<close>: only \<open>undefined\<close> takes the default.\<close>

definition por_defecto :: "real option \<Rightarrow> real \<Rightarrow> real" where
  "por_defecto v d = (case v of None \<Rightarrow> d | Some x \<Rightarrow> x)"

text \<open>\<open>v !== undefined && v < 0\<close>.\<close>

definition negativo :: "real option \<Rightarrow> bool" where
  "negativo v = (case v of None \<Rightarrow> False | Some x \<Rightarrow> x < 0)"

section \<open>Data model\<close>

record empleado =
  emp_cedula :: string
  emp_nombres :: string
  emp_salarioBase :: "real option"
  emp_auxTransporte :: "real option"
  emp_esSalarioMinimo :: bool
  emp_activo :: bool

record novedades =
  nov_diasLaborados :: "real option"
  nov_horasExtraDiurna :: "real option"
  nov_horasExtraNocturna :: "real option"
  nov_horasRecargoNocturno :: "real option"
  nov_horasExtraDomDiurna :: "real option"
  nov_horasExtraDomNocturna :: "real option"
  nov_dominicalSinComp :: "real option"
  nov_dominicalConComp :: "real option"
  nov_bonificacion :: "real option"
  nov_prestamo :: "real option"

record factores =
  fac_horaExtraDiurna :: real
  fac_horaExtraNocturna :: real
  fac_recargoNocturno :: real
  fac_horaExtraDomDiurna :: real
  fac_horaExtraDomNocturna :: real
  fac_dominicalSinComp :: real
  fac_dominicalConComp :: real

text \<open>
  The configuration: \<open>smmlv\<close> and \<open>horaDivisor\<close> are tested for truthiness by the engine
  and may be absent; the other fields are numbers in every configuration of the model.
\<close>

record config =
  cfg_smmlv :: "real option"
  cfg_auxTransporte :: real
  cfg_saludPct :: real
  cfg_pensionPct :: real
  cfg_horaDivisor :: "real option"
  cfg_factores :: factores

text \<open>The object returned by \<open>calcularValoresBase\<close>.\<close>

record valoresBase =
  vb_valorDia :: real
  vb_auxDia :: real
  vb_saludDia :: real
  vb_pensionDia :: real
  vb_horaOrdinaria :: real
  vb_horaExtraDiurna :: real
  vb_horaExtraNocturna :: real
  vb_recargoNocturno :: real
  vb_horaExtraDomDiurna :: real
  vb_horaExtraDomNocturna :: real
  vb_dominicalSinComp :: real
  vb_dominicalConComp :: real

text \<open>One line of \<open>detalleExtras\<close>: \<open>{ cantidad, valor }\<close>.\<close>

record extra =
  ext_cantidad :: real
  ext_valor :: real

record detalleExtras =
  det_horasExtraDiurna :: extra
  det_horasExtraNocturna :: extra
  det_recargoNocturno :: extra
  det_horasExtraDomDiurna :: extra
  det_horasExtraDomNocturna :: extra
  det_dominicalSinComp :: extra
  det_dominicalConComp :: extra

text \<open>The \<open>valoresBase\<close> metadata of a settlement (five rounded values).\<close>

record metaBase =
  mb_valorDia :: real
  mb_auxDia :: real
  mb_horaOrdinaria :: real
  mb_saludDia :: real
  mb_pensionDia :: real

text \<open>
  The settlement returned by \<open>calcularNominaSemanal\<close>. The last three fields are absent
  from the engine's result and assigned afterwards (\<open>tipoNomina\<close> by
  \<open>calcularNominaMensual\<close> and by the routes, the other two by the routes).
\<close>

record liquidacion =
  liq_cedula :: string
  liq_nombres :: string
  liq_diasLaborados :: real
  liq_salarioBase :: real
  liq_auxTransporte :: "real option"
  liq_salarioDevengado :: real
  liq_auxDevengado :: real
  liq_totalExtras :: real
  liq_detalleExtras :: detalleExtras
  liq_bonificacion :: real
  liq_totalDevengado :: real
  liq_deduccionSalud :: real
  liq_deduccionPension :: real
  liq_deduccionPrestamo :: real
  liq_totalDeducciones :: real
  liq_valorNominaSemanal :: real
  liq_valorBoniSemanal :: real
  liq_totalNomina :: real
  liq_totalConsignado :: real
  liq_valoresBase :: metaBase
  liq_periodo :: "string option"
  liq_tipoNomina :: "string option"
  liq_liquidadoAt :: "string option"

section \<open>The engine: calculoNomina.js\<close>

text \<open>\<open>redondear\<close>: \<open>Math.round(valor * 100) / 100\<close>. \<open>Math.round\<close> returns the nearest
  integer and, of two equally near integers, the greater one: it is
  \<open>\<lfloor>x + 1/2\<rfloor>\<close>.\<close>

definition Math_round :: "real \<Rightarrow> int" where
  "Math_round x = \<lfloor>x + 1 / 2\<rfloor>"

definition redondear :: "real \<Rightarrow> real" where
  "redondear valor = of_int (Math_round (valor * 100)) / 100"

definition validarDatos ::
  "empleado option \<Rightarrow> novedades option \<Rightarrow> config option \<Rightarrow> violacion list" where
  "validarDatos empleado novedades config =
    (let errores =
       (if (case empleado of None \<Rightarrow> True | Some e \<Rightarrow> falsy (emp_salarioBase e))
        then [(''empleado'', ''Empleado no valido o sin salario base'')] else [])
     in case novedades of
          None \<Rightarrow> errores @ [(''novedades'', ''Novedades no proporcionadas'')]
        | Some n \<Rightarrow>
            errores
            @ (if (case nov_diasLaborados n of
                     None \<Rightarrow> True
                   | Some d \<Rightarrow> d < 0 \<or> d > 30)
               then [(''diasLaborados'', ''Debe estar entre 0 y 30'')] else [])
            @ (if negativo (nov_horasExtraDiurna n)
               then [(''horasExtraDiurna'', ''No puede ser negativo'')] else [])
            @ (if negativo (nov_horasExtraNocturna n)
               then [(''horasExtraNocturna'', ''No puede ser negativo'')] else [])
            @ (if negativo (nov_prestamo n)
               then [(''prestamo'', ''No puede ser negativo'')] else [])
            @ (if negativo (nov_bonificacion n)
               then [(''bonificacion'', ''No puede ser negativo'')] else [])
            @ (if (case config of None \<Rightarrow> True | Some c \<Rightarrow> falsy (cfg_smmlv c))
               then [(''config'', ''Configuracion del sistema no disponible'')] else []))"

text \<open>The local constant \<open>horaDivisor = config.horaDivisor || 240\<close> of
  \<open>calcularValoresBase\<close>.\<close>

definition horaDivisor :: "config \<Rightarrow> real" where
  "horaDivisor config = o_bien (cfg_horaDivisor config) 240"

definition calcularValoresBase :: "real \<Rightarrow> config \<Rightarrow> valoresBase" where
  "calcularValoresBase salarioBase config =
    \<lparr> vb_valorDia = salarioBase / 30,
      vb_auxDia = cfg_auxTransporte config / 30,
      vb_saludDia = (salarioBase * (cfg_saludPct config / 100)) / 30,
      vb_pensionDia = (salarioBase * (cfg_pensionPct config / 100)) / 30,
      vb_horaOrdinaria = salarioBase / horaDivisor config,
      vb_horaExtraDiurna =
        (salarioBase / horaDivisor config) * fac_horaExtraDiurna (cfg_factores config),
      vb_horaExtraNocturna =
        (salarioBase / horaDivisor config) * fac_horaExtraNocturna (cfg_factores config),
      vb_recargoNocturno =
        (salarioBase / horaDivisor config) * fac_recargoNocturno (cfg_factores config),
      vb_horaExtraDomDiurna =
        (salarioBase / horaDivisor config) * fac_horaExtraDomDiurna (cfg_factores config),
      vb_horaExtraDomNocturna =
        (salarioBase / horaDivisor config) * fac_horaExtraDomNocturna (cfg_factores config),
      vb_dominicalSinComp = (salarioBase / 30) * fac_dominicalSinComp (cfg_factores config),
      vb_dominicalConComp = (salarioBase / 30) * fac_dominicalConComp (cfg_factores config) \<rparr>"

text \<open>
  \<open>calcularNominaSemanal\<close> reads the identifier \<open>salarioBase\<close> twice (the eligibility
  test of line 152 and the \<open>salarioBase\<close> property of the result), and declares no
  variable of that name: its destructuring of \<open>empleado\<close> takes \<open>auxTransporte\<close>,
  \<open>nombres\<close> and \<open>cedula\<close> only, and the stored salary is read into \<open>salarioBaseReal\<close>.
  The identifier is therefore resolved in the enclosing scopes: the module, then the
  global object. That binding is the first argument of the model: \<open>Some v\<close> when an
  enclosing scope binds \<open>salarioBase\<close> to the number \<open>v\<close>, \<open>None\<close> when no scope binds
  it, in which case reading it throws a ReferenceError.

  The two TypeError branches of the model stand for property reads on a missing object
  or value; an input that passes \<open>validarDatos\<close> has the three objects, a salary and a
  minimum wage, so they are not reached. The \<open>console.warn\<close> on a negative total has
  no effect on the result and is left out.
\<close>

type_synonym ambito = "real option"

text \<open>
  The scope the repository gives the engine: calculoNomina.js declares \<open>salarioBase\<close>
  only as the parameter of \<open>calcularValoresBase\<close>, local to that function, and no file
  of the repository assigns a global of that name.
\<close>

definition ambito_repo :: ambito where
  "ambito_repo = None"

definition calcularNominaSemanal ::
  "ambito \<Rightarrow> empleado option \<Rightarrow> novedades option \<Rightarrow> config option \<Rightarrow> error + liquidacion"
  where
  "calcularNominaSemanal ambito empleado novedades config =
    (let errores = validarDatos empleado novedades config in
     if length errores > 0
     then Inl (con_detalles errores
                 (createError ''VALIDATION_ERROR'' (Some ''Error en los datos de entrada'')))
     else
       (case (empleado, novedades, config) of
          (Some e, Some n, Some c) \<Rightarrow>
            (case (emp_salarioBase e, cfg_smmlv c) of
               (Some salarioAlmacenado, Some smmlv) \<Rightarrow>
                 (let salarioBaseReal =
                        (if emp_esSalarioMinimo e then smmlv else salarioAlmacenado);
                      diasLaborados = por_defecto (nov_diasLaborados n) 7;
                      horasExtraDiurna = por_defecto (nov_horasExtraDiurna n) 0;
                      horasExtraNocturna = por_defecto (nov_horasExtraNocturna n) 0;
                      horasRecargoNocturno = por_defecto (nov_horasRecargoNocturno n) 0;
                      horasExtraDomDiurna = por_defecto (nov_horasExtraDomDiurna n) 0;
                      horasExtraDomNocturna = por_defecto (nov_horasExtraDomNocturna n) 0;
                      dominicalSinComp = por_defecto (nov_dominicalSinComp n) 0;
                      dominicalConComp = por_defecto (nov_dominicalConComp n) 0;
                      bonificacion = por_defecto (nov_bonificacion n) 0;
                      prestamo = por_defecto (nov_prestamo n) 0;
                      base = calcularValoresBase salarioBaseReal c;
                      salarioDevengado = vb_valorDia base * diasLaborados
                  in case ambito of
                       None \<Rightarrow> Inl (ReferenceError ''salarioBase'')
                     | Some salarioBase \<Rightarrow>
                  (let tieneAuxilio = (salarioBase \<le> smmlv * 2);
                       auxDevengado = (if tieneAuxilio then vb_auxDia base * diasLaborados else 0);
                       valorHorasExtraDiurna = horasExtraDiurna * vb_horaExtraDiurna base;
                       valorHorasExtraNocturna = horasExtraNocturna * vb_horaExtraNocturna base;
                       valorRecargoNocturno = horasRecargoNocturno * vb_recargoNocturno base;
                       valorHorasExtraDomDiurna = horasExtraDomDiurna * vb_horaExtraDomDiurna base;
                       valorHorasExtraDomNocturna =
                         horasExtraDomNocturna * vb_horaExtraDomNocturna base;
                       valorDominicalSinComp = dominicalSinComp * vb_dominicalSinComp base;
                       valorDominicalConComp = dominicalConComp * vb_dominicalConComp base;
                       totalExtras =
                         valorHorasExtraDiurna + valorHorasExtraNocturna + valorRecargoNocturno
                         + valorHorasExtraDomDiurna + valorHorasExtraDomNocturna
                         + valorDominicalSinComp + valorDominicalConComp;
                       totalDevengadoSalarial = salarioDevengado + totalExtras;
                       deduccionSalud = vb_saludDia base * diasLaborados;
                       deduccionPension = vb_pensionDia base * diasLaborados;
                       deduccionPrestamo = prestamo;
                       totalDeducciones = deduccionSalud + deduccionPension + deduccionPrestamo;
                       valorNominaSemanal =
                         totalDevengadoSalarial + auxDevengado - deduccionSalud - deduccionPension;
                       valorBoniSemanal = bonificacion - deduccionPrestamo;
                       totalNomina = valorNominaSemanal + valorBoniSemanal;
                       totalConsignado = valorNominaSemanal
                   in Inr
                     \<lparr> liq_cedula = emp_cedula e,
                       liq_nombres = emp_nombres e,
                       liq_diasLaborados = diasLaborados,
                       liq_salarioBase = salarioBase,
                       liq_auxTransporte = (if tieneAuxilio then emp_auxTransporte e else Some 0),
                       liq_salarioDevengado = redondear salarioDevengado,
                       liq_auxDevengado = redondear auxDevengado,
                       liq_totalExtras = redondear totalExtras,
                       liq_detalleExtras =
                         \<lparr> det_horasExtraDiurna =
                             \<lparr> ext_cantidad = horasExtraDiurna,
                               ext_valor = redondear valorHorasExtraDiurna \<rparr>,
                           det_horasExtraNocturna =
                             \<lparr> ext_cantidad = horasExtraNocturna,
                               ext_valor = redondear valorHorasExtraNocturna \<rparr>,
                           det_recargoNocturno =
                             \<lparr> ext_cantidad = horasRecargoNocturno,
                               ext_valor = redondear valorRecargoNocturno \<rparr>,
                           det_horasExtraDomDiurna =
                             \<lparr> ext_cantidad = horasExtraDomDiurna,
                               ext_valor = redondear valorHorasExtraDomDiurna \<rparr>,
                           det_horasExtraDomNocturna =
                             \<lparr> ext_cantidad = horasExtraDomNocturna,
                               ext_valor = redondear valorHorasExtraDomNocturna \<rparr>,
                           det_dominicalSinComp =
                             \<lparr> ext_cantidad = dominicalSinComp,
                               ext_valor = redondear valorDominicalSinComp \<rparr>,
                           det_dominicalConComp =
                             \<lparr> ext_cantidad = dominicalConComp,
                               ext_valor = redondear valorDominicalConComp \<rparr> \<rparr>,
                       liq_bonificacion = redondear bonificacion,
                       liq_totalDevengado =
                         redondear (totalDevengadoSalarial + auxDevengado + bonificacion),
                       liq_deduccionSalud = redondear deduccionSalud,
                       liq_deduccionPension = redondear deduccionPension,
                       liq_deduccionPrestamo = redondear deduccionPrestamo,
                       liq_totalDeducciones = redondear totalDeducciones,
                       liq_valorNominaSemanal = redondear valorNominaSemanal,
                       liq_valorBoniSemanal = redondear valorBoniSemanal,
                       liq_totalNomina = redondear totalNomina,
                       liq_totalConsignado = redondear totalConsignado,
                       liq_valoresBase =
                         \<lparr> mb_valorDia = redondear (vb_valorDia base),
                           mb_auxDia = redondear (vb_auxDia base),
                           mb_horaOrdinaria = redondear (vb_horaOrdinaria base),
                           mb_saludDia = redondear (vb_saludDia base),
                           mb_pensionDia = redondear (vb_pensionDia base) \<rparr>,
                       liq_periodo = None,
                       liq_tipoNomina = None,
                       liq_liquidadoAt = None \<rparr>))
             | _ \<Rightarrow> Inl (TypeError ''salario base o smmlv sin valor''))
        | _ \<Rightarrow> Inl (TypeError ''Cannot read properties of undefined'')))"

text \<open>
  \<open>calcularNominaMensual\<close>: \<open>novedades.diasLaborados\<close> on a missing \<open>novedades\<close> is a
  TypeError, raised before any validation.
\<close>

definition calcularNominaMensual ::
  "ambito \<Rightarrow> empleado option \<Rightarrow> novedades option \<Rightarrow> config option \<Rightarrow> error + liquidacion"
  where
  "calcularNominaMensual ambito empleado novedades config =
    (case novedades of
       None \<Rightarrow> Inl (TypeError ''Cannot read properties of undefined'')
     | Some n \<Rightarrow>
         (let novedadesMensual = n\<lparr>nov_diasLaborados := Some (o_bien (nov_diasLaborados n) 30)\<rparr>
          in case calcularNominaSemanal ambito empleado (Some novedadesMensual) config of
               Inl err \<Rightarrow> Inl err
             | Inr resultado \<Rightarrow> Inr (resultado\<lparr>liq_tipoNomina := Some ''MENSUAL''\<rparr>)))"


section \<open>The batch routes: routes/nominas.js\<close>

record totales =
  tot_totalNomina :: real
  tot_totalConsignado :: real

text \<open>An entry of the error list of a bulk run: \<open>{ cedula, nombres, error }\<close>.\<close>

record errorEmpleado =
  ee_cedula :: string
  ee_nombres :: string
  ee_error :: string

text \<open>The document of one period, as the routes write it to \<open>nominas/<periodo>.json\<close>.\<close>

record nomina =
  nom_periodo :: string
  nom_tipoNomina :: string
  nom_estado :: string
  nom_fechaInicio :: "string option"
  nom_fechaFin :: "string option"
  nom_liquidaciones :: "liquidacion list"
  nom_totales :: totales
  nom_errores :: "errorEmpleado list option"
  nom_creadoAt :: "string option"
  nom_procesadoAt :: "string option"
  nom_aprobadoAt :: "string option"

text \<open>The files the routes read and write: empleados.json, config.json and one document
  per period (\<open>leerNomina\<close> answers \<open>null\<close> for a period without a file).\<close>

record almacen =
  alm_empleados :: "empleado list"
  alm_config :: config
  alm_nominas :: "string \<rightharpoonup> nomina"

text \<open>The empty object \<open>{}\<close> as novelties.\<close>

definition novedadesVacias :: novedades where
  "novedadesVacias =
    \<lparr> nov_diasLaborados = None, nov_horasExtraDiurna = None, nov_horasExtraNocturna = None,
      nov_horasRecargoNocturno = None, nov_horasExtraDomDiurna = None,
      nov_horasExtraDomNocturna = None, nov_dominicalSinComp = None,
      nov_dominicalConComp = None, nov_bonificacion = None, nov_prestamo = None \<rparr>"

text \<open>\<open>Array.prototype.findIndex\<close>, with \<open>None\<close> for its \<open>-1\<close>.\<close>

fun findIndex :: "('a \<Rightarrow> bool) \<Rightarrow> 'a list \<Rightarrow> nat option" where
  "findIndex P [] = None"
| "findIndex P (x # xs) = (if P x then Some 0 else map_option Suc (findIndex P xs))"



text \<open>The three assignments both routes make on a computed settlement.\<close>

definition sellar :: "string \<Rightarrow> string \<Rightarrow> string \<Rightarrow> liquidacion \<Rightarrow> liquidacion" where
  "sellar periodo tipoNomina ahora liquidacion =
    liquidacion\<lparr> liq_periodo := Some periodo, liq_tipoNomina := Some tipoNomina,
                  liq_liquidadoAt := Some ahora \<rparr>"

subsection \<open>POST /liquidar\<close>

text \<open>Lines 200-206: replace the settlement of that cedula, else append.\<close>

definition upsertLiquidacion ::
  "string \<Rightarrow> liquidacion \<Rightarrow> liquidacion list \<Rightarrow> liquidacion list" where
  "upsertLiquidacion cedula liquidacion liquidaciones =
    (case findIndex (\<lambda>l. liq_cedula l = cedula) liquidaciones of
       Some existeIndex \<Rightarrow> liquidaciones[existeIndex := liquidacion]
     | None \<Rightarrow> liquidaciones @ [liquidacion])"

text \<open>Lines 209-212 and 305-308: both totals are \<open>reduce\<close> sums from 0.\<close>

definition recalcularTotales :: "liquidacion list \<Rightarrow> totales" where
  "recalcularTotales liquidaciones =
    \<lparr> tot_totalNomina = foldl (\<lambda>sum l. sum + liq_totalNomina l) 0 liquidaciones,
      tot_totalConsignado = foldl (\<lambda>sum l. sum + liq_totalConsignado l) 0 liquidaciones \<rparr>"

text \<open>Lines 185-197: the shell of a period that has no document yet.\<close>

definition nominaNueva :: "string \<Rightarrow> string \<Rightarrow> string \<Rightarrow> nomina" where
  "nominaNueva periodo tipoNomina ahora =
    \<lparr> nom_periodo = periodo, nom_tipoNomina = tipoNomina, nom_estado = ''borrador'',
      nom_fechaInicio = None, nom_fechaFin = None, nom_liquidaciones = [],
      nom_totales = \<lparr> tot_totalNomina = 0, tot_totalConsignado = 0 \<rparr>,
      nom_errores = None, nom_creadoAt = Some ahora, nom_procesadoAt = None,
      nom_aprobadoAt = None \<rparr>"

text \<open>Lines 180-215, the branch \<open>if (guardar)\<close>: load or create the period, upsert,
  recompute the totals, stamp \<open>procesadoAt\<close>, save.\<close>

definition liquidar_guardar ::
  "string \<Rightarrow> string \<Rightarrow> string \<Rightarrow> string \<Rightarrow> liquidacion \<Rightarrow> almacen \<Rightarrow> almacen" where
  "liquidar_guardar ahora periodo tipoNomina cedula liquidacion alm =
    (let nomina = (case alm_nominas alm periodo of
                     None \<Rightarrow> nominaNueva periodo tipoNomina ahora
                   | Some nm \<Rightarrow> nm);
         liquidaciones = upsertLiquidacion cedula liquidacion (nom_liquidaciones nomina);
         nomina' = nomina\<lparr> nom_liquidaciones := liquidaciones,
                           nom_totales := recalcularTotales liquidaciones,
                           nom_procesadoAt := Some ahora \<rparr>
     in alm\<lparr> alm_nominas := (alm_nominas alm)(periodo \<mapsto> nomina') \<rparr>)"



subsection \<open>POST /liquidar-all\<close>







subsection \<open>PUT /:periodo/aprobar\<close>


section \<open>Example data\<close>

text \<open>The configuration routes/config.js writes when config.json does not exist
  (\<open>configDefault\<close>, without its \<open>year\<close>).\<close>

definition factoresDefault :: factores where
  "factoresDefault =
    \<lparr> fac_horaExtraDiurna = 125 / 100, fac_horaExtraNocturna = 175 / 100,
      fac_recargoNocturno = 135 / 100, fac_horaExtraDomDiurna = 2,
      fac_horaExtraDomNocturna = 25 / 10, fac_dominicalSinComp = 175 / 100,
      fac_dominicalConComp = 75 / 100 \<rparr>"

definition configDefault :: config where
  "configDefault =
    \<lparr> cfg_smmlv = Some 1000000, cfg_auxTransporte = 117172, cfg_saludPct = 4,
      cfg_pensionPct = 4, cfg_horaDivisor = Some 240, cfg_factores = factoresDefault \<rparr>"

text \<open>The employee and the novelties of the worked example of the API reference
  (POST /nominas/liquidar).\<close>

definition empleadoRef :: empleado where
  "empleadoRef =
    \<lparr> emp_cedula = ''43677978'', emp_nombres = ''DORA JANETH JIMENEZ DAVILA'',
      emp_salarioBase = Some 1000000, emp_auxTransporte = Some 117172,
      emp_esSalarioMinimo = False, emp_activo = True \<rparr>"

definition novedadesRef :: novedades where
  "novedadesRef =
    novedadesVacias\<lparr> nov_diasLaborados := Some 7, nov_horasExtraDiurna := Some 0,
                      nov_horasExtraNocturna := Some 0,
                      nov_bonificacion := Some (20645987 / 100), nov_prestamo := Some 0 \<rparr>"

text \<open>The settlement of that example: the figures of the API reference and of the
  formula sheet, completed with the fields those documents leave out.\<close>

definition liquidacionRef :: liquidacion where
  "liquidacionRef =
    \<lparr> liq_cedula = ''43677978'', liq_nombres = ''DORA JANETH JIMENEZ DAVILA'',
      liq_diasLaborados = 7, liq_salarioBase = 1000000, liq_auxTransporte = Some 117172,
      liq_salarioDevengado = 23333333 / 100, liq_auxDevengado = 2734013 / 100,
      liq_totalExtras = 0,
      liq_detalleExtras =
        \<lparr> det_horasExtraDiurna = \<lparr> ext_cantidad = 0, ext_valor = 0 \<rparr>,
          det_horasExtraNocturna = \<lparr> ext_cantidad = 0, ext_valor = 0 \<rparr>,
          det_recargoNocturno = \<lparr> ext_cantidad = 0, ext_valor = 0 \<rparr>,
          det_horasExtraDomDiurna = \<lparr> ext_cantidad = 0, ext_valor = 0 \<rparr>,
          det_horasExtraDomNocturna = \<lparr> ext_cantidad = 0, ext_valor = 0 \<rparr>,
          det_dominicalSinComp = \<lparr> ext_cantidad = 0, ext_valor = 0 \<rparr>,
          det_dominicalConComp = \<lparr> ext_cantidad = 0, ext_valor = 0 \<rparr> \<rparr>,
      liq_bonificacion = 20645987 / 100, liq_totalDevengado = 46713334 / 100,
      liq_deduccionSalud = 933333 / 100, liq_deduccionPension = 933333 / 100,
      liq_deduccionPrestamo = 0, liq_totalDeducciones = 1866667 / 100,
      liq_valorNominaSemanal = 2420068 / 10, liq_valorBoniSemanal = 20645987 / 100,
      liq_totalNomina = 44846667 / 100, liq_totalConsignado = 2420068 / 10,
      liq_valoresBase =
        \<lparr> mb_valorDia = 3333333 / 100, mb_auxDia = 390573 / 100,
          mb_horaOrdinaria = 416667 / 100, mb_saludDia = 133333 / 100,
          mb_pensionDia = 133333 / 100 \<rparr>,
      liq_periodo = None, liq_tipoNomina = None, liq_liquidadoAt = None \<rparr>"

text \<open>An employee flagged for the statutory minimum whose stored salary is above twice
  the minimum wage.\<close>

definition empleadoTresMillones :: empleado where
  "empleadoTresMillones =
    empleadoRef\<lparr> emp_salarioBase := Some 3000000, emp_esSalarioMinimo := True \<rparr>"

text \<open>A second employee, with a negative stored salary, and one without a salary.\<close>

definition empleadoNegativo :: empleado where
  "empleadoNegativo =
    \<lparr> emp_cedula = ''1216727372'', emp_nombres = ''MARIA CAMILA'',
      emp_salarioBase = Some (- 1000000), emp_auxTransporte = Some 117172,
      emp_esSalarioMinimo = False, emp_activo = True \<rparr>"


text \<open>Novelties with one negative quantity that is not an overtime hour count of the
  two validated kinds, and novelties of a period without a worked day.\<close>

definition novedadesRecargoNegativo :: novedades where
  "novedadesRecargoNegativo =
    novedadesVacias\<lparr> nov_diasLaborados := Some 7, nov_horasRecargoNocturno := Some (- 1) \<rparr>"

definition novedadesCompNegativo :: novedades where
  "novedadesCompNegativo =
    novedadesVacias\<lparr> nov_diasLaborados := Some 7, nov_dominicalConComp := Some (- 1) \<rparr>"


text \<open>An approved period holding the settlement of the example, and the files around
  it.\<close>

definition liquidacionGuardada :: liquidacion where
  "liquidacionGuardada =
    sellar ''2022-S19'' ''SEMANAL'' ''2022-05-08T10:00:00.000Z'' liquidacionRef"

definition nominaAprobada :: nomina where
  "nominaAprobada =
    \<lparr> nom_periodo = ''2022-S19'', nom_tipoNomina = ''SEMANAL'', nom_estado = ''aprobada'',
      nom_fechaInicio = Some ''2022-05-02'', nom_fechaFin = Some ''2022-05-08'',
      nom_liquidaciones = [liquidacionGuardada],
      nom_totales = \<lparr> tot_totalNomina = 44846667 / 100, tot_totalConsignado = 2420068 / 10 \<rparr>,
      nom_errores = None, nom_creadoAt = Some ''2022-05-08T10:00:00.000Z'',
      nom_procesadoAt = Some ''2022-05-08T10:00:00.000Z'',
      nom_aprobadoAt = Some ''2022-05-09T09:00:00.000Z'' \<rparr>"

definition almacenAprobado :: almacen where
  "almacenAprobado =
    \<lparr> alm_empleados = [empleadoRef, empleadoNegativo], alm_config = configDefault,
      alm_nominas = [''2022-S19'' \<mapsto> nominaAprobada] \<rparr>"





section \<open>Validation and the unbound identifier\<close>

lemma validarDatos_vacio:
  assumes "validarDatos empleado novedades config = []"
  shows "\<exists>e n c s m d. empleado = Some e \<and> novedades = Some n \<and> config = Some c
           \<and> emp_salarioBase e = Some s \<and> s \<noteq> 0 \<and> cfg_smmlv c = Some m \<and> m \<noteq> 0
           \<and> nov_diasLaborados n = Some d \<and> 0 \<le> d \<and> d \<le> 30"
  using assms
  by (auto simp: validarDatos_def falsy_def Let_def split: option.splits if_splits)

text \<open>With no binding of \<open>salarioBase\<close> in scope the engine never returns: it throws the
  validation error, or the ReferenceError of line 152.\<close>

lemma semanal_sin_ambito:
  "calcularNominaSemanal None e n c =
     (if validarDatos e n c = []
      then Inl (ReferenceError ''salarioBase'')
      else Inl (con_detalles (validarDatos e n c)
                 (createError ''VALIDATION_ERROR'' (Some ''Error en los datos de entrada''))))"
proof (cases "validarDatos e n c = []")
  case True
  from validarDatos_vacio[OF True] obtain e' n' c' s m where
    "e = Some e'" "n = Some n'" "c = Some c'" "emp_salarioBase e' = Some s"
    "cfg_smmlv c' = Some m"
    by blast
  then show ?thesis using True
    by (simp add: calcularNominaSemanal_def Let_def)
next
  case False
  then show ?thesis by (simp add: calcularNominaSemanal_def Let_def)
qed

section \<open>The hourly divisor\<close>

text \<open>
  C10. For every salary \<open>S\<close> and every configuration whose \<open>horaDivisor\<close> is absent or zero,
  \<open>calcularValoresBase\<close> computes the hourly value and each hour-based surcharge unit
  value with the divisor 240; the hourly value is \<open>S / horaDivisor\<close> of the
  configuration exactly when that is a nonzero number; and the divisor the function
  divides by is never 0. Of the seven surcharge unit values the five hourly ones
  (day and night overtime, night surcharge, holiday day and night overtime) use that
  divisor; the two Sunday values are \<open>S / 30\<close> times their factor and involve no
  configured divisor.
\<close>

theorem horaDivisor_guarded:
  "(falsy (cfg_horaDivisor c) \<longrightarrow>
      horaDivisor c = 240
      \<and> vb_horaOrdinaria (calcularValoresBase S c) = S / 240
      \<and> vb_horaExtraDiurna (calcularValoresBase S c)
          = S / 240 * fac_horaExtraDiurna (cfg_factores c)
      \<and> vb_horaExtraNocturna (calcularValoresBase S c)
          = S / 240 * fac_horaExtraNocturna (cfg_factores c)
      \<and> vb_recargoNocturno (calcularValoresBase S c)
          = S / 240 * fac_recargoNocturno (cfg_factores c)
      \<and> vb_horaExtraDomDiurna (calcularValoresBase S c)
          = S / 240 * fac_horaExtraDomDiurna (cfg_factores c)
      \<and> vb_horaExtraDomNocturna (calcularValoresBase S c)
          = S / 240 * fac_horaExtraDomNocturna (cfg_factores c))
   \<and> (\<forall>d. cfg_horaDivisor c = Some d \<and> d \<noteq> 0 \<longrightarrow>
          horaDivisor c = d \<and> vb_horaOrdinaria (calcularValoresBase S c) = S / d)
   \<and> horaDivisor c \<noteq> 0
   \<and> vb_horaOrdinaria (calcularValoresBase S c) = S / horaDivisor c
   \<and> vb_horaExtraDiurna (calcularValoresBase S c)
       = S / horaDivisor c * fac_horaExtraDiurna (cfg_factores c)
   \<and> vb_horaExtraNocturna (calcularValoresBase S c)
       = S / horaDivisor c * fac_horaExtraNocturna (cfg_factores c)
   \<and> vb_recargoNocturno (calcularValoresBase S c)
       = S / horaDivisor c * fac_recargoNocturno (cfg_factores c)
   \<and> vb_horaExtraDomDiurna (calcularValoresBase S c)
       = S / horaDivisor c * fac_horaExtraDomDiurna (cfg_factores c)
   \<and> vb_horaExtraDomNocturna (calcularValoresBase S c)
       = S / horaDivisor c * fac_horaExtraDomNocturna (cfg_factores c)
   \<and> vb_dominicalSinComp (calcularValoresBase S c)
       = S / 30 * fac_dominicalSinComp (cfg_factores c)
   \<and> vb_dominicalConComp (calcularValoresBase S c)
       = S / 30 * fac_dominicalConComp (cfg_factores c)"
  by (auto simp: calcularValoresBase_def horaDivisor_def o_bien_def falsy_def
           split: option.splits)

theorem horaDivisor_guarded_witness:
  "falsy (cfg_horaDivisor (configDefault\<lparr>cfg_horaDivisor := Some 0\<rparr>))
   \<and> vb_horaOrdinaria (calcularValoresBase 1000000 (configDefault\<lparr>cfg_horaDivisor := Some 0\<rparr>))
       = 1000000 / 240
   \<and> falsy (cfg_horaDivisor (configDefault\<lparr>cfg_horaDivisor := None\<rparr>))
   \<and> vb_horaExtraNocturna (calcularValoresBase 1000000 (configDefault\<lparr>cfg_horaDivisor := None\<rparr>))
       = 1000000 / 240 * (175 / 100)
   \<and> cfg_horaDivisor (configDefault\<lparr>cfg_horaDivisor := Some 220\<rparr>) = Some 220
   \<and> vb_horaOrdinaria (calcularValoresBase 1000000 (configDefault\<lparr>cfg_horaDivisor := Some 220\<rparr>))
       = 1000000 / 220"
  using horaDivisor_guarded [of "configDefault\<lparr>cfg_horaDivisor := Some 0\<rparr>" 1000000]
        horaDivisor_guarded [of "configDefault\<lparr>cfg_horaDivisor := None\<rparr>" 1000000]
        horaDivisor_guarded [of "configDefault\<lparr>cfg_horaDivisor := Some 220\<rparr>" 1000000]
  by (simp add: falsy_def configDefault_def factoresDefault_def)

section \<open>Totals and the upsert of a settlement\<close>

lemma foldl_suma: "foldl (\<lambda>sum l. sum + f l) (a::real) xs = a + sum_list (map f xs)"
  by (induction xs arbitrary: a) auto

lemma recalcularTotales_suma:
  "recalcularTotales ls =
     \<lparr> tot_totalNomina = sum_list (map liq_totalNomina ls),
       tot_totalConsignado = sum_list (map liq_totalConsignado ls) \<rparr>"
  by (simp add: recalcularTotales_def foldl_suma)

lemma upsert_Nil: "upsertLiquidacion c l [] = [l]"
  by (simp add: upsertLiquidacion_def)

lemma upsert_Cons:
  "upsertLiquidacion c l (x # xs) =
     (if liq_cedula x = c then l # xs else x # upsertLiquidacion c l xs)"
  by (simp add: upsertLiquidacion_def split: option.splits)

lemma upsert_length_presente:
  "\<exists>x\<in>set ls. liq_cedula x = c \<Longrightarrow> length (upsertLiquidacion c l ls) = length ls"
  by (induction ls) (auto simp: upsert_Nil upsert_Cons)

lemma upsert_ausente:
  "\<forall>x\<in>set ls. liq_cedula x \<noteq> c \<Longrightarrow> upsertLiquidacion c l ls = ls @ [l]"
  by (induction ls) (auto simp: upsert_Nil upsert_Cons)

lemma upsert_dos_veces:
  "liq_cedula l = c \<Longrightarrow>
     upsertLiquidacion c l (upsertLiquidacion c l ls) = upsertLiquidacion c l ls"
  by (induction ls) (auto simp: upsert_Nil upsert_Cons)

lemma upsert_reemplaza:
  "\<exists>x\<in>set ls. liq_cedula x = c \<Longrightarrow>
     \<exists>i<length ls. liq_cedula (ls ! i) = c \<and> upsertLiquidacion c l ls = ls[i := l]"
proof (induction ls)
  case Nil
  then show ?case by simp
next
  case (Cons x xs)
  show ?case
  proof (cases "liq_cedula x = c")
    case True
    then have "liq_cedula ((x # xs) ! 0) = c \<and> upsertLiquidacion c l (x # xs) = (x # xs)[0 := l]"
      by (simp add: upsert_Cons)
    then show ?thesis by blast
  next
    case False
    with Cons.prems have "\<exists>y\<in>set xs. liq_cedula y = c" by auto
    from Cons.IH[OF this] obtain i where
      i: "i < length xs" "liq_cedula (xs ! i) = c" "upsertLiquidacion c l xs = xs[i := l]"
      by blast
    then have "Suc i < length (x # xs) \<and> liq_cedula ((x # xs) ! Suc i) = c
        \<and> upsertLiquidacion c l (x # xs) = (x # xs)[Suc i := l]"
      using False by (simp add: upsert_Cons)
    then show ?thesis by blast
  qed
qed

lemma guardar_nomina:
  "alm_nominas (liquidar_guardar ahora p t c l alm) p =
     Some ((case alm_nominas alm p of None \<Rightarrow> nominaNueva p t ahora | Some nm \<Rightarrow> nm)
            \<lparr> nom_liquidaciones :=
                 upsertLiquidacion c l
                   (nom_liquidaciones (case alm_nominas alm p of
                                         None \<Rightarrow> nominaNueva p t ahora | Some nm \<Rightarrow> nm)),
              nom_totales :=
                 recalcularTotales
                   (upsertLiquidacion c l
                      (nom_liquidaciones (case alm_nominas alm p of
                                            None \<Rightarrow> nominaNueva p t ahora | Some nm \<Rightarrow> nm))),
              nom_procesadoAt := Some ahora \<rparr>)"
  by (simp add: liquidar_guardar_def Let_def)

text \<open>
  C8. The upsert of POST /liquidar is idempotent per employee: saving the settlement of a
  cedula into a period and saving it again leaves the same list of settlements (so the
  same length) and the same totals as saving it once; the totals are the sums over the
  settlements of the period; and when the period already holds a settlement of that
  cedula the upsert replaces it in place, the list keeping its length.
\<close>

theorem upsert_idempotente:
  assumes "liq_cedula l = c"
  shows "\<exists>n1 n2.
           alm_nominas (liquidar_guardar a1 p t c l alm) p = Some n1
         \<and> alm_nominas (liquidar_guardar a2 p t' c l (liquidar_guardar a1 p t c l alm)) p = Some n2
         \<and> nom_liquidaciones n2 = nom_liquidaciones n1
         \<and> length (nom_liquidaciones n2) = length (nom_liquidaciones n1)
         \<and> nom_totales n2 = nom_totales n1
         \<and> nom_totales n1 =
             \<lparr> tot_totalNomina = sum_list (map liq_totalNomina (nom_liquidaciones n1)),
               tot_totalConsignado = sum_list (map liq_totalConsignado (nom_liquidaciones n1)) \<rparr>
         \<and> (\<forall>n0. alm_nominas alm p = Some n0 \<and> (\<exists>x\<in>set (nom_liquidaciones n0). liq_cedula x = c)
               \<longrightarrow> length (nom_liquidaciones n1) = length (nom_liquidaciones n0)
                 \<and> (\<exists>i<length (nom_liquidaciones n0). liq_cedula (nom_liquidaciones n0 ! i) = c
                       \<and> nom_liquidaciones n1 = (nom_liquidaciones n0)[i := l]))"
  using assms
  by (auto simp: guardar_nomina upsert_dos_veces recalcularTotales_suma upsert_length_presente
        upsert_reemplaza split: option.splits)

theorem upsert_idempotente_witness:
  "liq_cedula liquidacionRef = ''43677978''
   \<and> alm_nominas almacenAprobado ''2022-S19'' = Some nominaAprobada
   \<and> (\<exists>n1 n2.
        alm_nominas (liquidar_guardar ''t1'' ''2022-S19'' ''SEMANAL'' ''43677978'' liquidacionRef
                       almacenAprobado) ''2022-S19'' = Some n1
      \<and> alm_nominas (liquidar_guardar ''t2'' ''2022-S19'' ''SEMANAL'' ''43677978'' liquidacionRef
                       (liquidar_guardar ''t1'' ''2022-S19'' ''SEMANAL'' ''43677978''
                          liquidacionRef almacenAprobado)) ''2022-S19'' = Some n2
      \<and> nom_liquidaciones n2 = nom_liquidaciones n1
      \<and> nom_totales n2 = nom_totales n1
      \<and> length (nom_liquidaciones n1) = 1)"
proof -
  have c: "liq_cedula liquidacionRef = ''43677978''"
    by (simp add: liquidacionRef_def)
  have a: "alm_nominas almacenAprobado ''2022-S19'' = Some nominaAprobada"
    by (simp add: almacenAprobado_def)
  have pr: "\<exists>x\<in>set (nom_liquidaciones nominaAprobada). liq_cedula x = ''43677978''"
    by (simp add: nominaAprobada_def liquidacionGuardada_def sellar_def liquidacionRef_def)
  have len: "length (nom_liquidaciones nominaAprobada) = 1"
    by (simp add: nominaAprobada_def)
  from upsert_idempotente [OF c, of "''t1''" "''2022-S19''" "''SEMANAL''" almacenAprobado
         "''t2''" "''SEMANAL''"]
  obtain n1 n2 where
    h: "alm_nominas (liquidar_guardar ''t1'' ''2022-S19'' ''SEMANAL'' ''43677978'' liquidacionRef
                       almacenAprobado) ''2022-S19'' = Some n1"
       "alm_nominas (liquidar_guardar ''t2'' ''2022-S19'' ''SEMANAL'' ''43677978'' liquidacionRef
                       (liquidar_guardar ''t1'' ''2022-S19'' ''SEMANAL'' ''43677978''
                          liquidacionRef almacenAprobado)) ''2022-S19'' = Some n2"
       "nom_liquidaciones n2 = nom_liquidaciones n1"
       "nom_totales n2 = nom_totales n1"
       "\<forall>n0. alm_nominas almacenAprobado ''2022-S19'' = Some n0
               \<and> (\<exists>x\<in>set (nom_liquidaciones n0). liq_cedula x = ''43677978'')
             \<longrightarrow> length (nom_liquidaciones n1) = length (nom_liquidaciones n0)
               \<and> (\<exists>i<length (nom_liquidaciones n0). liq_cedula (nom_liquidaciones n0 ! i) = ''43677978''
                       \<and> nom_liquidaciones n1 = (nom_liquidaciones n0)[i := liquidacionRef])"
    by blast
  from h(5) a pr len have "length (nom_liquidaciones n1) = 1" by auto
  with h c a show ?thesis by blast
qed

section \<open>The bulk run\<close>




section \<open>Approval\<close>















section \<open>Rounding\<close>







text \<open>The engine on the worked example, when \<open>salarioBase\<close> is bound to the stored
  salary of the employee.\<close>

lemma semanal_ref:
  "calcularNominaSemanal (Some 1000000) (Some empleadoRef) (Some novedadesRef)
     (Some configDefault) = Inr liquidacionRef"
  by code_simp




section \<open>The settlement in the scope of the repository\<close>

text \<open>
  C1. The specification: with \<open>esSalarioMinimo\<close> the rates are computed from \<open>smmlv\<close>
  while the subsidy test compares the stored salary with twice \<open>smmlv\<close>, so a stored
  salary of 3,000,000 under a minimum wage of 1,000,000 earns no subsidy. The code, on that
  employee: the subsidy test reads the identifier \<open>salarioBase\<close>, which
  \<open>calcularNominaSemanal\<close> does not declare, and the call ends in a ReferenceError
  instead of a settlement.
\<close>

theorem subsidio_salario_minimo_falla:
  "calcularNominaSemanal ambito_repo (Some empleadoTresMillones) (Some novedadesRef)
     (Some configDefault) = Inl (ReferenceError ''salarioBase'')"
  by code_simp

text \<open>
  C2. The specification: the worked example (salary 1,000,000, 7 days, bonus 206,459.87)
  returns the settlement of the API reference. The code, on that input in the scope of
  the repository: the same ReferenceError.
\<close>

theorem escenario_referencia_falla:
  "calcularNominaSemanal ambito_repo (Some empleadoRef) (Some novedadesRef)
     (Some configDefault) = Inl (ReferenceError ''salarioBase'')"
  by code_simp

section \<open>What the validation leaves out\<close>

text \<open>
  C4. The specification: the details of the ValidationError carry every violation of the
  input; with \<open>novedades\<close> and \<open>config\<close> both missing, both are listed. The code: the
  \<open>return\<close> of line 43 ends the validation at the missing \<open>novedades\<close>, before the check
  of \<open>config\<close>, and the details hold the one entry; with \<open>novedades\<close> present the missing
  \<open>config\<close> is reported.
\<close>

theorem validacion_retorno_temprano:
  "validarDatos (Some empleadoRef) None None = [(''novedades'', ''Novedades no proporcionadas'')]
   \<and> calcularNominaSemanal ambito_repo (Some empleadoRef) None None
       = Inl (AppError ''Error en los datos de entrada'' 400 ''VALIDATION_ERROR''
                [(''novedades'', ''Novedades no proporcionadas'')])
   \<and> validarDatos (Some empleadoRef) (Some novedadesRef) None
       = [(''config'', ''Configuracion del sistema no disponible'')]"
  by code_simp

text \<open>
  C5. The specification: a negative value of any of the seven quantities, of the loan or
  of the bonus is a violation. The code: \<open>validarDatos\<close> reads five fields of \<open>novedades\<close> and
  tests the sign of \<open>horasExtraDiurna\<close>, \<open>horasExtraNocturna\<close>, \<open>prestamo\<close> and
  \<open>bonificacion\<close> only; a negative \<open>horasRecargoNocturno\<close> or \<open>dominicalConComp\<close> passes
  with no violation, no ValidationError is thrown, and once \<open>salarioBase\<close> resolves the
  settlement carries a negative surcharge value.
\<close>

theorem validacion_negativos_omitidos:
  "validarDatos (Some empleadoRef) (Some novedadesRecargoNegativo) (Some configDefault) = []
   \<and> validarDatos (Some empleadoRef) (Some novedadesCompNegativo) (Some configDefault) = []
   \<and> calcularNominaSemanal ambito_repo (Some empleadoRef) (Some novedadesRecargoNegativo)
        (Some configDefault) = Inl (ReferenceError ''salarioBase'')
   \<and> map_sum id (\<lambda>r. ext_valor (det_recargoNocturno (liq_detalleExtras r)))
        (calcularNominaSemanal (Some 1000000) (Some empleadoRef) (Some novedadesRecargoNegativo)
           (Some configDefault)) = Inr (- 5625)
   \<and> validarDatos (Some empleadoRef)
        (Some (novedadesVacias\<lparr> nov_diasLaborados := Some 7, nov_horasExtraDiurna := Some (- 1) \<rparr>))
        (Some configDefault) = [(''horasExtraDiurna'', ''No puede ser negativo'')]"
  by code_simp

section \<open>The monthly variant\<close>


section \<open>Further properties\<close>

text \<open>
  X1. In the scope of the repository \<open>calcularNominaSemanal\<close> returns no settlement for
  any input: an input with a violation throws the VALIDATION_ERROR carrying the list of
  \<open>validarDatos\<close>, every other input throws the ReferenceError of the undeclared
  \<open>salarioBase\<close>.
\<close>

theorem semanal_nunca_liquida:
  "calcularNominaSemanal ambito_repo e n c =
     (if validarDatos e n c = []
      then Inl (ReferenceError ''salarioBase'')
      else Inl (AppError ''Error en los datos de entrada'' 400 ''VALIDATION_ERROR''
                  (validarDatos e n c)))"
  by (simp add: ambito_repo_def semanal_sin_ambito createError_def ErrorCodes_def)

text \<open>
  X2. Were \<open>salarioBase\<close> bound to the stored salary of the employee, the worked example
  would return the settlement of the API reference (233,333.33 earned, 27,340.13 of
  subsidy, 9,333.33 for health and for pension, 242,006.80 net, 448,466.67 in total), and
  the employee with a stored salary of 3,000,000 flagged for the minimum would earn no
  subsidy while being paid on the minimum wage.
\<close>

theorem escenario_referencia_con_salario:
  "calcularNominaSemanal (emp_salarioBase empleadoRef) (Some empleadoRef) (Some novedadesRef)
     (Some configDefault) = Inr liquidacionRef
   \<and> liq_salarioDevengado liquidacionRef = 23333333 / 100
   \<and> liq_auxDevengado liquidacionRef = 2734013 / 100
   \<and> liq_deduccionSalud liquidacionRef = 933333 / 100
   \<and> liq_deduccionPension liquidacionRef = 933333 / 100
   \<and> liq_valorNominaSemanal liquidacionRef = 24200680 / 100
   \<and> liq_totalNomina liquidacionRef = 44846667 / 100
   \<and> liq_totalConsignado liquidacionRef = 24200680 / 100
   \<and> map_sum id liq_auxDevengado
        (calcularNominaSemanal (emp_salarioBase empleadoTresMillones) (Some empleadoTresMillones)
           (Some novedadesRef) (Some configDefault)) = Inr 0
   \<and> map_sum id liq_salarioDevengado
        (calcularNominaSemanal (emp_salarioBase empleadoTresMillones) (Some empleadoTresMillones)
           (Some novedadesRef) (Some configDefault)) = Inr (23333333 / 100)"
  by code_simp

lemma novedades_misma: "nov_diasLaborados n = Some d \<Longrightarrow> n\<lparr>nov_diasLaborados := Some d\<rparr> = n"
  by (cases n) auto

text \<open>
  X3. In every scope, \<open>calcularNominaMensual\<close> on novelties whose \<open>diasLaborados\<close> is a
  nonzero number answers as \<open>calcularNominaSemanal\<close> does on the same input, with
  \<open>tipoNomina = 'MENSUAL'\<close> on a settlement; on novelties whose \<open>diasLaborados\<close> is
  absent or zero it answers as \<open>calcularNominaSemanal\<close> does with 30 days.
\<close>

theorem mensual_como_semanal:
  "(\<forall>d. nov_diasLaborados n = Some d \<and> d \<noteq> 0 \<longrightarrow>
       calcularNominaMensual amb e (Some n) c
         = map_sum id (\<lambda>r. r\<lparr>liq_tipoNomina := Some ''MENSUAL''\<rparr>)
             (calcularNominaSemanal amb e (Some n) c))
   \<and> (falsy (nov_diasLaborados n) \<longrightarrow>
       calcularNominaMensual amb e (Some n) c
         = map_sum id (\<lambda>r. r\<lparr>liq_tipoNomina := Some ''MENSUAL''\<rparr>)
             (calcularNominaSemanal amb e (Some (n\<lparr>nov_diasLaborados := Some 30\<rparr>)) c))"
  by (auto simp: calcularNominaMensual_def Let_def o_bien_def falsy_def novedades_misma
        split: option.splits sum.splits)

theorem mensual_como_semanal_witness:
  "nov_diasLaborados novedadesRef = Some 7
   \<and> calcularNominaMensual (Some 1000000) (Some empleadoRef) (Some novedadesRef) (Some configDefault)
       = Inr (liquidacionRef\<lparr>liq_tipoNomina := Some ''MENSUAL''\<rparr>)
   \<and> falsy (nov_diasLaborados novedadesVacias)
   \<and> calcularNominaMensual ambito_repo (Some empleadoRef) (Some novedadesVacias) (Some configDefault)
       = Inl (ReferenceError ''salarioBase'')"
proof -
  have d: "nov_diasLaborados novedadesRef = Some 7" by (simp add: novedadesRef_def)
  have f: "falsy (nov_diasLaborados novedadesVacias)" by (simp add: novedadesVacias_def falsy_def)
  have s: "calcularNominaSemanal ambito_repo (Some empleadoRef)
             (Some (novedadesVacias\<lparr>nov_diasLaborados := Some 30\<rparr>)) (Some configDefault)
           = Inl (ReferenceError ''salarioBase'')"
    by code_simp
  from mensual_como_semanal [of novedadesRef "Some 1000000" "Some empleadoRef" "Some configDefault",
         THEN conjunct1, THEN spec, of 7] d
  have a: "calcularNominaMensual (Some 1000000) (Some empleadoRef) (Some novedadesRef) (Some configDefault)
       = Inr (liquidacionRef\<lparr>liq_tipoNomina := Some ''MENSUAL''\<rparr>)"
    by (simp add: semanal_ref)
  from mensual_como_semanal [of novedadesVacias ambito_repo "Some empleadoRef" "Some configDefault",
         THEN conjunct2] f
  have b: "calcularNominaMensual ambito_repo (Some empleadoRef) (Some novedadesVacias) (Some configDefault)
       = Inl (ReferenceError ''salarioBase'')"
    by (simp add: s)
  from d a f b show ?thesis by (intro conjI)
qed

end
